theory Spec2Isabelle
  imports Complex_Main
begin

section \<open>Mead ingredients calculator: the model\<close>

text \<open>
  The development embeds \<^verbatim>\<open>meadGenerator.c\<close> (the text-prompt program) and the
  calculation core of the graphical variant listed in \<^verbatim>\<open>README.md\<close>.

  Conventions of the embedding:
  \<^item> a C \<^verbatim>\<open>double\<close> is a \<^typ>\<open>real\<close>: the formulas are the source's, the binary64
    rounding error of each operation is not represented; NaN and the infinities, which
    a volume read from the input can be, are kept in a second reading of the
    calculators and of \<^verbatim>\<open>main\<close> (the definitions named \<open>_dbl\<close>);
  \<^item> a C \<^verbatim>\<open>int\<close> is an \<^typ>\<open>int\<close>: the program only compares its integers and
    converts one of them to \<^verbatim>\<open>double\<close>, so no wrap-around can occur;
  \<^item> a C string is the \<^typ>\<open>string\<close> of the bytes in its buffer; as in C, the string
    ends at the first NUL byte, or at the end of the list;
  \<^item> what the program prints is a list of output events, and the numbers handed to
    \<^verbatim>\<open>printf\<close> are recorded as they are before formatting.
\<close>

subsection \<open>Constants\<close>

definition GRAVITY_POINTS_PER_UNIT :: real where
  "GRAVITY_POINTS_PER_UNIT = 35.0"

definition KG_TO_LBS :: real where
  "KG_TO_LBS = 2.20462"

definition L_TO_GAL :: real where
  "L_TO_GAL = 0.264172"

subsection \<open>The C library functions the program calls\<close>

text \<open>The numeric value of a byte, as \<^verbatim>\<open>unsigned char\<close>.\<close>

definition byte :: "char \<Rightarrow> int" where
  "byte c = of_char c"

text \<open>
  \<^verbatim>\<open>tolower\<close> in the "C" locale (the program never calls \<^verbatim>\<open>setlocale\<close>): the
  letters \<^verbatim>\<open>A\<close> to \<^verbatim>\<open>Z\<close> (65 to 90) move to \<^verbatim>\<open>a\<close> to \<^verbatim>\<open>z\<close>, every other byte
  stays.
\<close>

definition tolower :: "char \<Rightarrow> char" where
  "tolower c = (if 65 \<le> byte c \<and> byte c \<le> 90 then char_of (byte c + 32) else c)"

text \<open>
  \<^verbatim>\<open>strcasecmp\<close> (POSIX): both strings are walked byte by byte, each byte lowered;
  the walk stops at the first difference or at the terminating NUL, and the result is
  the difference of the two bytes reached. The end of a list stands for the NUL.
\<close>

fun strcasecmp :: "string \<Rightarrow> string \<Rightarrow> int" where
  "strcasecmp [] [] = 0"
| "strcasecmp [] (y # ys) = 0 - byte (tolower y)"
| "strcasecmp (x # xs) [] = byte (tolower x) - 0"
| "strcasecmp (x # xs) (y # ys) =
     (if tolower x \<noteq> tolower y then byte (tolower x) - byte (tolower y)
      else if tolower x = CHR 0x00 then 0
      else strcasecmp xs ys)"

text \<open>
  \<^verbatim>\<open>round\<close> of \<^verbatim>\<open>math.h\<close> (C99 7.12.9.6): the nearest integer value, halfway cases
  away from zero.
\<close>

definition c_round :: "real \<Rightarrow> real" where
  "c_round x = (if 0 \<le> x then of_int \<lfloor>x + 1 / 2\<rfloor> else of_int \<lceil>x - 1 / 2\<rceil>)"

subsection \<open>Output events\<close>

text \<open>
  The quantities \<^verbatim>\<open>calculate_us_imperial\<close> and \<^verbatim>\<open>calculate_metric\<close> print:
  the target gravity, the honey amount and its unit, the top-off water and its unit
  (the literal \<^verbatim>\<open>0.00\<close> with the remark "Honey volume meets or exceeds batch volume."
  when the computed water is not positive), and the gravity points.
\<close>

record 'n report =
  rep_og :: 'n
  rep_honey :: 'n
  rep_honey_unit :: string
  rep_water :: 'n
  rep_water_unit :: string
  rep_exceeds :: bool
  rep_points :: 'n

datatype 'n event =
    InvalidSelection
  | InvalidVolume
  | InvalidABV
  | InvalidSweetnessInput
  | InvalidYeast
  | TurboNote
  | ErrorInvalidSweetness
  | WarningHighOG 'n
  | Results "'n report"
  | Complete

subsection \<open>\<^verbatim>\<open>get_target_og\<close> (meadGenerator.c, lines 133 to 162)\<close>

text \<open>
  The result is the list of events printed and the value returned. The first component
  of the inner choice is the final gravity \<^verbatim>\<open>fg\<close>; the invalid-sweetness branch
  returns \<^verbatim>\<open>0.0\<close> at once.
\<close>

definition get_target_og :: "int \<Rightarrow> string \<Rightarrow> int \<Rightarrow> real event list \<times> real" where
  "get_target_og abv sweetness is_turbo =
     (case (if is_turbo = 1 then
              (if strcasecmp sweetness ''Dry'' = 0 then Some (1.000, [])
               else if strcasecmp sweetness ''Semi-Sweet'' = 0 then Some (1.010, [])
               else if strcasecmp sweetness ''Sweet'' = 0 then Some (1.020, [])
               else if strcasecmp sweetness ''Dessert'' = 0 then Some (1.030, [])
               else None)
            else Some (1.000, [TurboNote])) of
        None \<Rightarrow> ([], 0.0)
      | Some (fg, out) \<Rightarrow>
          (let og = fg + real_of_int abv / 131.25
           in (out, c_round (og * 1000.0) / 1000.0)))"

subsection \<open>\<^verbatim>\<open>calculate_us_imperial\<close> (meadGenerator.c, lines 169 to 191)\<close>

definition calculate_us_imperial :: "real \<Rightarrow> real \<Rightarrow> real report" where
  "calculate_us_imperial volume_gal target_og =
     (let gravity_points_needed = (target_og - 1.000) * 1000.0 * volume_gal;
          honey_lbs = gravity_points_needed / GRAVITY_POINTS_PER_UNIT;
          honey_volume_gal = honey_lbs / 10.0 * 0.65;
          water_gal = volume_gal - honey_volume_gal
      in \<lparr>rep_og = target_og,
          rep_honey = honey_lbs,
          rep_honey_unit = ''lbs (pounds)'',
          rep_water = (if water_gal \<le> 0.0 then 0.00 else water_gal),
          rep_water_unit = ''gallons'',
          rep_exceeds = (water_gal \<le> 0.0),
          rep_points = gravity_points_needed\<rparr>)"

subsection \<open>\<^verbatim>\<open>calculate_metric\<close> (meadGenerator.c, lines 198 to 224)\<close>

definition calculate_metric :: "real \<Rightarrow> real \<Rightarrow> real report" where
  "calculate_metric volume_L target_og =
     (let volume_gal = volume_L * L_TO_GAL;
          gravity_points_needed = (target_og - 1.000) * 1000.0 * volume_gal;
          honey_lbs_calc = gravity_points_needed / GRAVITY_POINTS_PER_UNIT;
          honey_kg = honey_lbs_calc / KG_TO_LBS;
          honey_volume_L = honey_kg * 0.74;
          water_L = volume_L - honey_volume_L
      in \<lparr>rep_og = target_og,
          rep_honey = honey_kg,
          rep_honey_unit = ''kg (kilograms)'',
          rep_water = (if water_L \<le> 0.0 then 0.00 else water_L),
          rep_water_unit = ''liters'',
          rep_exceeds = (water_L \<le> 0.0),
          rep_points = gravity_points_needed\<rparr>)"

subsection \<open>\<^verbatim>\<open>main\<close> (meadGenerator.c, lines 36 to 107)\<close>

text \<open>
  The five \<^verbatim>\<open>scanf\<close> conversions, in the order \<^verbatim>\<open>main\<close> performs them; \<open>None\<close>
  stands for a conversion that did not succeed (\<^verbatim>\<open>scanf\<close> did not return 1). The
  sweetness token is the run of non-blank bytes \<^verbatim>\<open>%s\<close> reads.
\<close>

record 'n stdin_tokens =
  tok_choice :: "int option"
  tok_volume :: "'n option"
  tok_abv :: "int option"
  tok_sweetness :: "string option"
  tok_yeast :: "int option"

text \<open>
  The result is the events printed and the exit status. \<^verbatim>\<open>scanf("%s", sweetness_str)\<close>
  stores the token and a NUL into \<^verbatim>\<open>char sweetness_str[20]\<close>: a token of 20 bytes or
  more writes past the array, the behaviour of the program is then undefined, and the
  model returns \<open>None\<close>. The menu and the prompts are not recorded.
\<close>

definition main :: "real stdin_tokens \<Rightarrow> (real event list \<times> int) option" where
  "main inp =
     (case tok_choice inp of
        None \<Rightarrow> Some ([InvalidSelection], 1)
      | Some choice \<Rightarrow>
     if choice \<noteq> 1 \<and> choice \<noteq> 2 then Some ([InvalidSelection], 1) else
     (case tok_volume inp of
        None \<Rightarrow> Some ([InvalidVolume], 1)
      | Some volume \<Rightarrow>
     if volume \<le> 0.0 then Some ([InvalidVolume], 1) else
     (case tok_abv inp of
        None \<Rightarrow> Some ([InvalidABV], 1)
      | Some abv \<Rightarrow>
     if abv < 5 \<or> abv > 25 then Some ([InvalidABV], 1) else
     (case tok_sweetness inp of
        None \<Rightarrow> Some ([InvalidSweetnessInput], 1)
      | Some sweetness_str \<Rightarrow>
     if 20 \<le> length sweetness_str then None else
     (case tok_yeast inp of
        None \<Rightarrow> Some ([InvalidYeast], 1)
      | Some is_turbo_mode \<Rightarrow>
     if is_turbo_mode \<noteq> 1 \<and> is_turbo_mode \<noteq> 2 then Some ([InvalidYeast], 1) else
     (case get_target_og abv sweetness_str is_turbo_mode of
        (out, target_og) \<Rightarrow>
     if target_og = 0.0 then Some (out @ [ErrorInvalidSweetness], 1)
     else if target_og > 1.225 then Some (out @ [WarningHighOG target_og], 1)
     else Some (out @ [Results (if choice = 1 then calculate_us_imperial volume target_og
                                else calculate_metric volume target_og),
                       Complete], 0)))))))"

subsection \<open>The graphical variant (README.md)\<close>

text \<open>
  \<^verbatim>\<open>get_target_og\<close> of README.md, lines 121 to 148: the same function, without the
  note printed in turbo mode.
\<close>

definition gtk_get_target_og :: "int \<Rightarrow> string \<Rightarrow> int \<Rightarrow> real" where
  "gtk_get_target_og abv sweetness is_turbo =
     (case (if is_turbo = 1 then
              (if strcasecmp sweetness ''Dry'' = 0 then Some 1.000
               else if strcasecmp sweetness ''Semi-Sweet'' = 0 then Some 1.010
               else if strcasecmp sweetness ''Sweet'' = 0 then Some 1.020
               else if strcasecmp sweetness ''Dessert'' = 0 then Some 1.030
               else None)
            else Some 1.000) of
        None \<Rightarrow> 0.0
      | Some fg \<Rightarrow>
          (let og = fg + real_of_int abv / 131.25
           in c_round (og * 1000.0) / 1000.0))"

subsection \<open>The specification's vocabulary\<close>

text \<open>The C string held by a buffer: the bytes before the first NUL.\<close>

definition c_str :: "string \<Rightarrow> string" where
  "c_str s = takeWhile (\<lambda>c. c \<noteq> CHR 0x00) s"

datatype sweetness = Dry | SemiSweet | Sweet | Dessert

text \<open>
  The sweetness a string names: its lowered text is compared with the four lowered
  labels \<^verbatim>\<open>Dry\<close>, \<^verbatim>\<open>Semi-Sweet\<close>, \<^verbatim>\<open>Sweet\<close>, \<^verbatim>\<open>Dessert\<close>; no label, no sweetness.
\<close>

definition spec_sweetness :: "string \<Rightarrow> sweetness option" where
  "spec_sweetness s =
     (let t = map tolower (c_str s) in
      if t = ''dry'' then Some Dry
      else if t = ''semi-sweet'' then Some SemiSweet
      else if t = ''sweet'' then Some Sweet
      else if t = ''dessert'' then Some Dessert
      else None)"

text \<open>The fixed table of final gravities.\<close>

fun spec_fg :: "sweetness \<Rightarrow> real" where
  "spec_fg Dry = 1.000"
| "spec_fg SemiSweet = 1.010"
| "spec_fg Sweet = 1.020"
| "spec_fg Dessert = 1.030"

text \<open>
  Rounding to three decimal places, nearest, half away from zero: the magnitude is
  scaled by 1000, rounded half up, scaled back, and the sign restored.
\<close>

definition spec_round3 :: "real \<Rightarrow> real" where
  "spec_round3 x = sgn x * (of_int \<lfloor>\<bar>x\<bar> * 1000 + 1 / 2\<rfloor> / 1000)"

text \<open>The specification's \<open>OG = round(FG + ABV / 131.25, 3)\<close>.\<close>

definition spec_og :: "real \<Rightarrow> int \<Rightarrow> real" where
  "spec_og fg abv = spec_round3 (fg + real_of_int abv / 131.25)"

section \<open>The same program on doubles with their special values\<close>

text \<open>
  \<^verbatim>\<open>scanf("%lf")\<close> and \<^verbatim>\<open>atof\<close> also deliver the special values of binary64: the
  text \<^verbatim>\<open>inf\<close>, or a number too large such as \<^verbatim>\<open>1e999\<close>, is read as positive
  infinity. This second reading of the calculators and of \<^verbatim>\<open>main\<close> keeps these
  values. A finite double is still a real (rounding and overflow of a finite result
  are not represented, and a zero has no sign); infinities and NaN follow IEEE 754.
\<close>

datatype double = Fin real | PInf | NInf | NaN

text \<open>Subtraction: NaN is contagious, and an infinity minus itself is NaN.\<close>

fun d_sub :: "double \<Rightarrow> double \<Rightarrow> double" where
  "d_sub NaN y = NaN"
| "d_sub x NaN = NaN"
| "d_sub (Fin x) (Fin y) = Fin (x - y)"
| "d_sub (Fin x) PInf = NInf"
| "d_sub (Fin x) NInf = PInf"
| "d_sub PInf PInf = NaN"
| "d_sub PInf y = PInf"
| "d_sub NInf NInf = NaN"
| "d_sub NInf y = NInf"

text \<open>Multiplication: zero times an infinity is NaN, otherwise the signs multiply.\<close>

fun d_mul :: "double \<Rightarrow> double \<Rightarrow> double" where
  "d_mul NaN y = NaN"
| "d_mul x NaN = NaN"
| "d_mul (Fin x) (Fin y) = Fin (x * y)"
| "d_mul (Fin x) PInf = (if x = 0 then NaN else if 0 < x then PInf else NInf)"
| "d_mul (Fin x) NInf = (if x = 0 then NaN else if 0 < x then NInf else PInf)"
| "d_mul PInf (Fin y) = (if y = 0 then NaN else if 0 < y then PInf else NInf)"
| "d_mul NInf (Fin y) = (if y = 0 then NaN else if 0 < y then NInf else PInf)"
| "d_mul PInf PInf = PInf"
| "d_mul PInf NInf = NInf"
| "d_mul NInf PInf = NInf"
| "d_mul NInf NInf = PInf"

text \<open>
  Division. The program divides by the non-zero constants 35.0, 10.0 and 2.20462 only;
  for completeness a zero divisor is read as a positive zero.
\<close>

fun d_div :: "double \<Rightarrow> double \<Rightarrow> double" where
  "d_div NaN y = NaN"
| "d_div x NaN = NaN"
| "d_div (Fin x) (Fin y) =
     (if y = 0 then (if x = 0 then NaN else if 0 < x then PInf else NInf)
      else Fin (x / y))"
| "d_div (Fin x) PInf = Fin 0"
| "d_div (Fin x) NInf = Fin 0"
| "d_div PInf (Fin y) = (if 0 \<le> y then PInf else NInf)"
| "d_div NInf (Fin y) = (if 0 \<le> y then NInf else PInf)"
| "d_div PInf PInf = NaN"
| "d_div PInf NInf = NaN"
| "d_div NInf PInf = NaN"
| "d_div NInf NInf = NaN"

text \<open>The comparison \<^verbatim>\<open><=\<close>: false as soon as one side is NaN.\<close>

fun d_le :: "double \<Rightarrow> double \<Rightarrow> bool" where
  "d_le NaN y = False"
| "d_le x NaN = False"
| "d_le (Fin x) (Fin y) = (x \<le> y)"
| "d_le NInf y = True"
| "d_le x PInf = True"
| "d_le PInf y = False"
| "d_le (Fin x) NInf = False"

text \<open>
  \<^verbatim>\<open>fmax\<close> (C99 7.12.12.2): the larger argument; when one argument is NaN, the other.
\<close>

fun fmax :: "double \<Rightarrow> double \<Rightarrow> double" where
  "fmax NaN y = y"
| "fmax x NaN = x"
| "fmax x y = (if d_le x y then y else x)"

text \<open>\<^verbatim>\<open>calculate_us_imperial\<close> (meadGenerator.c, lines 169 to 191) on doubles.\<close>

definition calculate_us_imperial_dbl :: "double \<Rightarrow> double \<Rightarrow> double report" where
  "calculate_us_imperial_dbl volume_gal target_og =
     (let gravity_points_needed = d_mul (d_mul (d_sub target_og (Fin 1.000)) (Fin 1000.0)) volume_gal;
          honey_lbs = d_div gravity_points_needed (Fin GRAVITY_POINTS_PER_UNIT);
          honey_volume_gal = d_mul (d_div honey_lbs (Fin 10.0)) (Fin 0.65);
          water_gal = d_sub volume_gal honey_volume_gal
      in \<lparr>rep_og = target_og,
          rep_honey = honey_lbs,
          rep_honey_unit = ''lbs (pounds)'',
          rep_water = (if d_le water_gal (Fin 0.0) then Fin 0.00 else water_gal),
          rep_water_unit = ''gallons'',
          rep_exceeds = d_le water_gal (Fin 0.0),
          rep_points = gravity_points_needed\<rparr>)"

text \<open>\<^verbatim>\<open>calculate_metric\<close> (meadGenerator.c, lines 198 to 224) on doubles.\<close>

definition calculate_metric_dbl :: "double \<Rightarrow> double \<Rightarrow> double report" where
  "calculate_metric_dbl volume_L target_og =
     (let volume_gal = d_mul volume_L (Fin L_TO_GAL);
          gravity_points_needed = d_mul (d_mul (d_sub target_og (Fin 1.000)) (Fin 1000.0)) volume_gal;
          honey_lbs_calc = d_div gravity_points_needed (Fin GRAVITY_POINTS_PER_UNIT);
          honey_kg = d_div honey_lbs_calc (Fin KG_TO_LBS);
          honey_volume_L = d_mul honey_kg (Fin 0.74);
          water_L = d_sub volume_L honey_volume_L
      in \<lparr>rep_og = target_og,
          rep_honey = honey_kg,
          rep_honey_unit = ''kg (kilograms)'',
          rep_water = (if d_le water_L (Fin 0.0) then Fin 0.00 else water_L),
          rep_water_unit = ''liters'',
          rep_exceeds = d_le water_L (Fin 0.0),
          rep_points = gravity_points_needed\<rparr>)"

text \<open>A report and an event of the finite reading, seen as ones over doubles.\<close>

definition dbl_report :: "real report \<Rightarrow> double report" where
  "dbl_report r =
     \<lparr>rep_og = Fin (rep_og r),
      rep_honey = Fin (rep_honey r),
      rep_honey_unit = rep_honey_unit r,
      rep_water = Fin (rep_water r),
      rep_water_unit = rep_water_unit r,
      rep_exceeds = rep_exceeds r,
      rep_points = Fin (rep_points r)\<rparr>"

fun dbl_event :: "real event \<Rightarrow> double event" where
  "dbl_event InvalidSelection = InvalidSelection"
| "dbl_event InvalidVolume = InvalidVolume"
| "dbl_event InvalidABV = InvalidABV"
| "dbl_event InvalidSweetnessInput = InvalidSweetnessInput"
| "dbl_event InvalidYeast = InvalidYeast"
| "dbl_event TurboNote = TurboNote"
| "dbl_event ErrorInvalidSweetness = ErrorInvalidSweetness"
| "dbl_event (WarningHighOG x) = WarningHighOG (Fin x)"
| "dbl_event (Results r) = Results (dbl_report r)"
| "dbl_event Complete = Complete"

text \<open>
  \<^verbatim>\<open>main\<close> (meadGenerator.c, lines 36 to 107) with the volume as a double.
  \<^verbatim>\<open>get_target_og\<close> computes with the integer \<^verbatim>\<open>abv\<close> and finite constants only, so
  its value is finite and the function is used as it is.
\<close>

definition main_dbl :: "double stdin_tokens \<Rightarrow> (double event list \<times> int) option" where
  "main_dbl inp =
     (case tok_choice inp of
        None \<Rightarrow> Some ([InvalidSelection], 1)
      | Some choice \<Rightarrow>
     if choice \<noteq> 1 \<and> choice \<noteq> 2 then Some ([InvalidSelection], 1) else
     (case tok_volume inp of
        None \<Rightarrow> Some ([InvalidVolume], 1)
      | Some volume \<Rightarrow>
     if d_le volume (Fin 0.0) then Some ([InvalidVolume], 1) else
     (case tok_abv inp of
        None \<Rightarrow> Some ([InvalidABV], 1)
      | Some abv \<Rightarrow>
     if abv < 5 \<or> abv > 25 then Some ([InvalidABV], 1) else
     (case tok_sweetness inp of
        None \<Rightarrow> Some ([InvalidSweetnessInput], 1)
      | Some sweetness_str \<Rightarrow>
     if 20 \<le> length sweetness_str then None else
     (case tok_yeast inp of
        None \<Rightarrow> Some ([InvalidYeast], 1)
      | Some is_turbo_mode \<Rightarrow>
     if is_turbo_mode \<noteq> 1 \<and> is_turbo_mode \<noteq> 2 then Some ([InvalidYeast], 1) else
     (case get_target_og abv sweetness_str is_turbo_mode of
        (out, target_og) \<Rightarrow>
     if target_og = 0.0 then Some (map dbl_event out @ [ErrorInvalidSweetness], 1)
     else if target_og > 1.225 then Some (map dbl_event out @ [WarningHighOG (Fin target_og)], 1)
     else Some (map dbl_event out @
                [Results (if choice = 1 then calculate_us_imperial_dbl volume (Fin target_og)
                          else calculate_metric_dbl volume (Fin target_og)),
                 Complete], 0)))))))"

text \<open>
  \<^verbatim>\<open>calculate_ingredients\<close> of README.md, lines 159 to 240, with the volume as a
  double (it comes from \<^verbatim>\<open>atof\<close>). The function writes five labels; the model
  returns the text left in the message label and, unless the function returned early,
  the quantities written to the other four.
\<close>

datatype gtk_message =
    MsgInvalidSweetness
  | MsgWarningHighOG
  | MsgEmpty
  | MsgTurboDone
  | MsgDone

record gtk_labels =
  lbl_og :: double
  lbl_fg :: double
  honeyAmount :: double
  honeyUnit :: string
  waterAmount :: double
  waterUnit :: string

definition calculate_ingredients ::
  "double \<Rightarrow> int \<Rightarrow> string \<Rightarrow> string \<Rightarrow> int \<Rightarrow> gtk_message \<times> gtk_labels option" where
  "calculate_ingredients volume_val abv_val unit_str sweetness_str is_turbo_mode =
     (let og = gtk_get_target_og abv_val sweetness_str is_turbo_mode;
          target_og = Fin og in
      if og = 0.0 then (MsgInvalidSweetness, None) else
      let msg1 = (if og > 1.225 then MsgWarningHighOG else MsgEmpty);
          fg = (if is_turbo_mode = 1 then
                  (if strcasecmp sweetness_str ''Dry'' = 0 then 1.000
                   else if strcasecmp sweetness_str ''Semi-Sweet'' = 0 then 1.010
                   else if strcasecmp sweetness_str ''Sweet'' = 0 then 1.020
                   else 1.030)
                else 1.000);
          (amounts :: (double \<times> string) \<times> (double \<times> string)) =
            (if strcasecmp unit_str ''Gallons'' = 0 then
               (let volume_gal = volume_val;
                    gravity_points_needed =
                      d_mul (d_mul (d_sub target_og (Fin 1.000)) (Fin 1000.0)) volume_gal;
                    honey_lbs = d_div gravity_points_needed (Fin GRAVITY_POINTS_PER_UNIT);
                    honey_volume_gal = d_mul (d_div honey_lbs (Fin 10.0)) (Fin 0.65);
                    water_gal = d_sub volume_gal honey_volume_gal
                in ((honey_lbs, ''lbs''), (fmax (Fin 0.0) water_gal, ''gallons'')))
             else
               (let volume_L = volume_val;
                    volume_gal = d_mul volume_L (Fin L_TO_GAL);
                    gravity_points_needed =
                      d_mul (d_mul (d_sub target_og (Fin 1.000)) (Fin 1000.0)) volume_gal;
                    honey_lbs_calc = d_div gravity_points_needed (Fin GRAVITY_POINTS_PER_UNIT);
                    honey_kg = d_div honey_lbs_calc (Fin KG_TO_LBS);
                    honey_volume_L = d_mul honey_kg (Fin 0.74);
                    water_L = d_sub volume_L honey_volume_L
                in ((honey_kg, ''kg''), (fmax (Fin 0.0) water_L, ''liters''))));
          msg2 = (if is_turbo_mode = 2 then MsgTurboDone
                  else if og \<le> 1.225 then MsgDone
                  else msg1)
      in (msg2,
          Some \<lparr>lbl_og = target_og, lbl_fg = Fin fg,
                honeyAmount = fst (fst amounts), honeyUnit = snd (fst amounts),
                waterAmount = fst (snd amounts), waterUnit = snd (snd amounts)\<rparr>))"

section \<open>Properties of the library functions\<close>

subsection \<open>Bytes and \<^verbatim>\<open>tolower\<close>\<close>


lemma byte_inj: "byte c = byte d \<longleftrightarrow> c = d"
  by (simp add: byte_def)

lemma byte_nul: "byte (CHR 0x00) = 0"
  by (simp add: byte_def)

lemma byte_zero_iff: "byte c = 0 \<longleftrightarrow> c = CHR 0x00"
  using byte_inj[of c "CHR 0x00"] by (simp add: byte_nul)

lemma byte_char_of: "byte (char_of (n::int)) = n mod 256"
  by (simp add: byte_def)

lemma tolower_nul: "tolower (CHR 0x00) = CHR 0x00"
  by (simp add: tolower_def byte_nul)

lemma tolower_nul_iff: "tolower c = CHR 0x00 \<longleftrightarrow> c = CHR 0x00"
proof
  assume h: "tolower c = CHR 0x00"
  show "c = CHR 0x00"
  proof (cases "65 \<le> byte c \<and> byte c \<le> 90")
    case True
    then have "byte (tolower c) = (byte c + 32) mod 256"
      by (simp add: tolower_def byte_char_of)
    also have "\<dots> = byte c + 32" using True by simp
    finally have "byte (tolower c) \<noteq> 0" using True by simp
    then show ?thesis using h by (simp add: byte_nul)
  next
    case False
    then have "tolower c = c" by (auto simp: tolower_def)
    with h show ?thesis by simp
  qed
next
  assume "c = CHR 0x00"
  then show "tolower c = CHR 0x00" by (simp add: tolower_nul)
qed

subsection \<open>\<^verbatim>\<open>strcasecmp\<close> compares the lowered C strings\<close>

lemma strcasecmp_zero_iff:
  "strcasecmp s t = 0 \<longleftrightarrow> map tolower (c_str s) = map tolower (c_str t)"
proof (induction s t rule: strcasecmp.induct)
  case 1
  show ?case by (simp add: c_str_def)
next
  case (2 y ys)
  show ?case by (simp add: c_str_def byte_zero_iff tolower_nul_iff)
next
  case (3 x xs)
  show ?case by (simp add: c_str_def byte_zero_iff tolower_nul_iff)
next
  case (4 x xs y ys)
  show ?case
  proof (cases "tolower x = tolower y")
    case False
    then have "x = CHR 0x00 \<Longrightarrow> y \<noteq> CHR 0x00" by auto
    with False show ?thesis
      by (auto simp: c_str_def byte_inj)
  next
    case same: True
    show ?thesis
    proof (cases "tolower x = CHR 0x00")
      case True
      then have "x = CHR 0x00" by (simp add: tolower_nul_iff)
      moreover from True same have "tolower y = CHR 0x00" by simp
      then have "y = CHR 0x00" by (simp add: tolower_nul_iff)
      ultimately have "x = CHR 0x00" "y = CHR 0x00" by simp_all
      then show ?thesis by (simp add: c_str_def tolower_nul)
    next
      case False
      then have "x \<noteq> CHR 0x00" by (simp add: tolower_nul_iff)
      moreover from False same have "tolower y \<noteq> CHR 0x00" by simp
      then have "y \<noteq> CHR 0x00" by (simp add: tolower_nul_iff)
      ultimately have "x \<noteq> CHR 0x00" "y \<noteq> CHR 0x00" by simp_all
      with same False 4 show ?thesis by (simp add: c_str_def)
    qed
  qed
qed

subsection \<open>\<^verbatim>\<open>round\<close> on thousandths is rounding to three decimals\<close>

lemma c_round_spec: "c_round (x * 1000) / 1000 = spec_round3 x"
proof (cases "0 \<le> x")
  case True
  then show ?thesis
    by (cases "x = 0") (simp_all add: c_round_def spec_round3_def)
next
  case False
  then have neg: "x < 0" by simp
  have "\<lceil>x * 1000 - 1 / 2\<rceil> = - \<lfloor>- x * 1000 + 1 / 2\<rfloor>"
    by (simp add: ceiling_def)
  with neg show ?thesis
    by (simp add: c_round_def spec_round3_def mult_less_0_iff)
qed

text \<open>
  \<open>spec_round3\<close> is a rounding to the nearest thousandth, with the halfway cases away
  from zero.
\<close>

lemma spec_round3_ties:
  "spec_round3 0.0005 = 0.001" "spec_round3 (- 0.0005) = - 0.001"
  "spec_round3 1.2204 = 1.220" "spec_round3 (- 1.2206) = - 1.221"
  by (simp_all add: spec_round3_def)

lemma spec_round3_nearest: "\<bar>spec_round3 x - x\<bar> \<le> 1 / 2000"
proof -
  define y where "y = \<bar>x\<bar> * 1000 + 1 / 2"
  define n where "n = \<lfloor>y\<rfloor>"
  have "real_of_int n \<le> y" "y < real_of_int n + 1"
    unfolding n_def by linarith+
  moreover have "y = \<bar>x\<bar> * 1000 + 1 / 2"
    by (simp only: y_def)
  ultimately have near: "\<bar>real_of_int n / 1000 - \<bar>x\<bar>\<bar> \<le> 1 / 2000"
    by linarith
  have "spec_round3 x = sgn x * (real_of_int n / 1000)"
    unfolding spec_round3_def n_def y_def ..
  then have "spec_round3 x - x = sgn x * (real_of_int n / 1000 - \<bar>x\<bar>)"
    by (simp add: algebra_simps sgn_real_def)
  then have "\<bar>spec_round3 x - x\<bar> = \<bar>sgn x\<bar> * \<bar>real_of_int n / 1000 - \<bar>x\<bar>\<bar>"
    by (simp only: abs_mult)
  also have "\<dots> \<le> \<bar>real_of_int n / 1000 - \<bar>x\<bar>\<bar>"
    by (simp add: sgn_real_def)
  finally show ?thesis using near by linarith
qed

section \<open>The gravity resolver in the specification's terms\<close>


lemma lowered_labels:
  "map tolower (c_str ''Dry'') = ''dry''"
  "map tolower (c_str ''Semi-Sweet'') = ''semi-sweet''"
  "map tolower (c_str ''Sweet'') = ''sweet''"
  "map tolower (c_str ''Dessert'') = ''dessert''"
  by (simp_all add: c_str_def tolower_def byte_def char_of_def)

lemma fg_lookup:
  "(if strcasecmp s ''Dry'' = 0 then Some (1.000 :: real, out)
    else if strcasecmp s ''Semi-Sweet'' = 0 then Some (1.010, out)
    else if strcasecmp s ''Sweet'' = 0 then Some (1.020, out)
    else if strcasecmp s ''Dessert'' = 0 then Some (1.030, out)
    else None) = map_option (\<lambda>sw. (spec_fg sw, out)) (spec_sweetness s)"
  by (simp add: strcasecmp_zero_iff lowered_labels spec_sweetness_def Let_def)

lemma get_target_og_standard:
  "get_target_og abv s 1 =
     (case spec_sweetness s of
        None \<Rightarrow> ([], 0)
      | Some sw \<Rightarrow> ([], spec_og (spec_fg sw) abv))"
proof -
  have "get_target_og abv s 1 =
     (case map_option (\<lambda>sw. (spec_fg sw, [])) (spec_sweetness s) of
        None \<Rightarrow> ([], 0.0)
      | Some (fg, out) \<Rightarrow>
          (let og = fg + real_of_int abv / 131.25
           in (out, c_round (og * 1000.0) / 1000.0)))"
    unfolding get_target_og_def by (simp only: fg_lookup simp_thms if_True)
  then show ?thesis
    by (simp add: spec_og_def c_round_spec split: option.split)
qed

lemma get_target_og_turbo:
  "is_turbo \<noteq> 1 \<Longrightarrow> get_target_og abv s is_turbo = ([TurboNote], spec_og 1.000 abv)"
  by (simp add: get_target_og_def spec_og_def c_round_spec)

lemma spec_og_bounds:
  assumes "5 \<le> abv" "abv \<le> 25" "1 \<le> fg" "fg \<le> 1.030"
  shows "1.038 \<le> spec_og fg abv \<and> spec_og fg abv \<le> 1.220"
proof -
  define x where "x = fg + real_of_int abv / 131.25"
  define n where "n = \<lfloor>x * 1000 + 1 / 2\<rfloor>"
  have lo: "1 + 5 / 131.25 \<le> x"
    using assms by (simp add: x_def)
  have hi: "x \<le> 1.030 + 25 / 131.25"
    using assms by (simp add: x_def)
  have pos: "0 < x" using lo by simp
  have "1038 \<le> n"
    unfolding n_def using lo by (simp add: le_floor_iff)
  moreover have "n \<le> 1220"
    unfolding n_def using hi by (simp add: floor_le_iff)
  ultimately have "1.038 \<le> real_of_int n / 1000 \<and> real_of_int n / 1000 \<le> 1.220"
    by simp
  moreover have "spec_round3 x = real_of_int n / 1000"
    using pos by (simp add: spec_round3_def n_def)
  ultimately have "1.038 \<le> spec_round3 x \<and> spec_round3 x \<le> 1.220"
    by (simp only:)
  then show ?thesis
    by (simp only: spec_og_def x_def)
qed

lemma spec_fg_range: "1 \<le> spec_fg sw \<and> spec_fg sw \<le> 1.030"
  by (cases sw) simp_all

text \<open>
  The value that \<^verbatim>\<open>get_target_og\<close> rounds is never near a halfway case: for a final
  gravity of the table it is a multiple of \<open>1 / 21\<close>, so it lies within
  \<open>1 / 2 - 1 / 42\<close> of the integer it rounds to. An error far below \<open>1 / 42\<close> in the
  computed product therefore does not change the rounded integer.
\<close>

lemma rounding_margin:
  assumes "0 \<le> abv"
  shows "\<bar>(spec_fg sw + real_of_int abv / 131.25) * 1000 -
          c_round ((spec_fg sw + real_of_int abv / 131.25) * 1000)\<bar> \<le> 1 / 2 - 1 / 42"
proof -
  define F :: int where "F = (case sw of Dry \<Rightarrow> 1000 | SemiSweet \<Rightarrow> 1010 | Sweet \<Rightarrow> 1020 | Dessert \<Rightarrow> 1030)"
  define k :: int where "k = 42 * F + 320 * abv"
  define x where "x = (spec_fg sw + real_of_int abv / 131.25) * 1000"
  have x: "x = real_of_int k / 42"
    unfolding x_def k_def F_def by (cases sw) (simp_all add: field_simps)
  have F0: "0 \<le> F" unfolding F_def by (cases sw) simp_all
  have k0: "0 \<le> k" unfolding k_def using assms F0 by simp
  have "x + 1 / 2 = real_of_int (k + 21) / real_of_int 42"
    unfolding x by simp
  then have fl: "\<lfloor>x + 1 / 2\<rfloor> = (k + 21) div 42"
    by (simp only: floor_divide_of_int_eq)
  have even: "even k" unfolding k_def by simp
  define n where "n = (k + 21) div 42"
  have "42 * n \<le> k + 21" "k + 21 < 42 * n + 42"
    unfolding n_def by presburger+
  moreover have "42 * n \<noteq> k + 21" using even by presburger
  ultimately have b: "42 * n - 20 \<le> k" "k \<le> 42 * n + 20"
    by linarith+
  have "c_round x = real_of_int n"
    using k0 fl unfolding c_round_def n_def x by simp
  moreover have "\<bar>real_of_int k / 42 - real_of_int n\<bar> \<le> 1 / 2 - 1 / 42"
  proof -
    have "real_of_int (42 * n - 20) \<le> real_of_int k" "real_of_int k \<le> real_of_int (42 * n + 20)"
      using b by (simp_all only: of_int_le_iff)
    then show ?thesis by (simp add: abs_le_iff field_simps)
  qed
  ultimately show ?thesis unfolding x_def[symmetric] x by simp
qed

lemma get_target_og_cases:
  "get_target_og abv s t =
     (if t = 1 then
        (case spec_sweetness s of
           None \<Rightarrow> ([], 0)
         | Some sw \<Rightarrow> ([], spec_og (spec_fg sw) abv))
      else ([TurboNote], spec_og 1.000 abv))"
  by (simp add: get_target_og_standard get_target_og_turbo)

lemma gtk_get_target_og_eq:
  "gtk_get_target_og abv s t = snd (get_target_og abv s t)"
proof -
  have "(if strcasecmp s ''Dry'' = 0 then Some (1.000 :: real)
         else if strcasecmp s ''Semi-Sweet'' = 0 then Some 1.010
         else if strcasecmp s ''Sweet'' = 0 then Some 1.020
         else if strcasecmp s ''Dessert'' = 0 then Some 1.030
         else None) = map_option spec_fg (spec_sweetness s)"
    by (simp add: strcasecmp_zero_iff lowered_labels spec_sweetness_def Let_def)
  then have "gtk_get_target_og abv s t =
     (case (if t = 1 then map_option spec_fg (spec_sweetness s) else Some 1.000) of
        None \<Rightarrow> 0.0
      | Some fg \<Rightarrow>
          (let og = fg + real_of_int abv / 131.25
           in c_round (og * 1000.0) / 1000.0))"
    unfolding gtk_get_target_og_def by (simp only:)
  then show ?thesis
    by (simp add: get_target_og_cases spec_og_def c_round_spec split: option.split)
qed

lemma og_value_cases:
  assumes "5 \<le> abv" "abv \<le> 25"
  shows "snd (get_target_og abv s t) = 0 \<and> t = 1 \<and> spec_sweetness s = None \<or>
         1.038 \<le> snd (get_target_og abv s t) \<and> snd (get_target_og abv s t) \<le> 1.220 \<and>
           (t = 1 \<longrightarrow> spec_sweetness s \<noteq> None)"
proof (cases "t = 1")
  case True
  show ?thesis
  proof (cases "spec_sweetness s")
    case None
    with True show ?thesis by (simp add: get_target_og_cases)
  next
    case (Some sw)
    with True assms spec_og_bounds[of abv "spec_fg sw"] spec_fg_range[of sw]
    show ?thesis by (simp add: get_target_og_cases)
  qed
next
  case False
  with assms spec_og_bounds[of abv 1] show ?thesis
    by (simp add: get_target_og_cases)
qed

lemma get_target_og_events: "set (fst (get_target_og abv s t)) \<subseteq> {TurboNote}"
  by (simp add: get_target_og_cases split: option.split)

subsection \<open>\<^verbatim>\<open>main\<close> on validated input\<close>

lemma main_validated:
  assumes "choice = 1 \<or> choice = 2" "0 < volume" "5 \<le> abv" "abv \<le> 25"
    "length s < 20" "t = 1 \<or> t = 2"
  shows "main \<lparr>tok_choice = Some choice, tok_volume = Some volume, tok_abv = Some abv,
               tok_sweetness = Some s, tok_yeast = Some t\<rparr> =
     (case get_target_og abv s t of
        (out, target_og) \<Rightarrow>
          if target_og = 0 then Some (out @ [ErrorInvalidSweetness], 1)
          else if target_og > 1.225 then Some (out @ [WarningHighOG target_og], 1)
          else Some (out @ [Results (if choice = 1 then calculate_us_imperial volume target_og
                                     else calculate_metric volume target_og),
                            Complete], 0))"
  using assms by (auto simp: main_def)

lemma main_no_warning:
  assumes "main inp = Some (out, code)"
  shows "WarningHighOG og \<notin> set out"
proof -
  have ev: "WarningHighOG og \<notin> set x" if "get_target_og abv s t = (x, v)" for abv s t x v
    using get_target_og_events[of abv s t] that by auto
  have le: "\<not> 1.225 < v" if "get_target_og abv s t = (x, v)" "5 \<le> abv" "abv \<le> 25"
    for abv s t x v
    using og_value_cases[of abv s t] that by auto
  show ?thesis
    using assms
    by (auto simp: main_def split: option.splits if_splits prod.splits dest: ev le)
qed

section \<open>The ingredient calculators, field by field\<close>

lemma clamp_max: "(if w \<le> (0.0::real) then 0.00 else w) = max 0 w"
  by (simp add: max_def)

lemma us_points:
  "rep_points (calculate_us_imperial v og) = (og - 1.000) * 1000.0 * v"
  unfolding calculate_us_imperial_def Let_def by (simp only: report.select_convs)

lemma us_honey:
  "rep_honey (calculate_us_imperial v og) =
     rep_points (calculate_us_imperial v og) / GRAVITY_POINTS_PER_UNIT"
  unfolding calculate_us_imperial_def Let_def by (simp only: report.select_convs)

lemma us_water:
  "rep_water (calculate_us_imperial v og) =
     max 0 (v - rep_honey (calculate_us_imperial v og) / 10.0 * 0.65)"
  unfolding calculate_us_imperial_def Let_def by (simp only: report.select_convs clamp_max)

lemma metric_points:
  "rep_points (calculate_metric v og) = (og - 1.000) * 1000.0 * (v * L_TO_GAL)"
  unfolding calculate_metric_def Let_def by (simp only: report.select_convs)

lemma metric_honey:
  "rep_honey (calculate_metric v og) =
     rep_points (calculate_metric v og) / GRAVITY_POINTS_PER_UNIT / KG_TO_LBS"
  unfolding calculate_metric_def Let_def by (simp only: report.select_convs)

lemma metric_water:
  "rep_water (calculate_metric v og) =
     max 0 (v - rep_honey (calculate_metric v og) * 0.74)"
  unfolding calculate_metric_def Let_def by (simp only: report.select_convs clamp_max)

lemma metric_displacement:
  "rep_honey (calculate_metric v og) * 0.74 = (og - 1) * v * (195487280 / 77161700)"
  unfolding metric_honey metric_points L_TO_GAL_def KG_TO_LBS_def GRAVITY_POINTS_PER_UNIT_def
  by simp

lemma us_displacement:
  "rep_honey (calculate_us_imperial (v * L_TO_GAL) og) / 10.0 * 0.65 =
     (og - 1) * v * (65 / 35) * L_TO_GAL"
  unfolding us_honey us_points GRAVITY_POINTS_PER_UNIT_def
  by simp

section \<open>The reading on doubles\<close>

text \<open>On finite values the reading on doubles is the reading on reals.\<close>

lemma us_dbl_finite:
  "calculate_us_imperial_dbl (Fin v) (Fin og) = dbl_report (calculate_us_imperial v og)"
  by (simp add: calculate_us_imperial_dbl_def calculate_us_imperial_def dbl_report_def Let_def
      GRAVITY_POINTS_PER_UNIT_def)

lemma metric_dbl_finite:
  "calculate_metric_dbl (Fin v) (Fin og) = dbl_report (calculate_metric v og)"
  by (simp add: calculate_metric_dbl_def calculate_metric_def dbl_report_def Let_def
      GRAVITY_POINTS_PER_UNIT_def KG_TO_LBS_def L_TO_GAL_def)

lemma main_dbl_finite:
  "main_dbl \<lparr>tok_choice = c, tok_volume = map_option Fin v, tok_abv = a,
             tok_sweetness = s, tok_yeast = y\<rparr> =
   map_option (\<lambda>(out, code). (map dbl_event out, code))
     (main \<lparr>tok_choice = c, tok_volume = v, tok_abv = a, tok_sweetness = s, tok_yeast = y\<rparr>)"
  by (simp add: main_dbl_def main_def us_dbl_finite metric_dbl_finite
      split: option.split prod.split)

text \<open>
  On finite values the text-prompt calculators report a water that is at least zero.
\<close>

lemma finite_water_nonnegative:
  "d_le (Fin 0) (rep_water (calculate_us_imperial_dbl (Fin v) (Fin og)))"
  "d_le (Fin 0) (rep_water (calculate_metric_dbl (Fin v) (Fin og)))"
  by (simp_all add: us_dbl_finite metric_dbl_finite dbl_report_def us_water metric_water)

text \<open>
  For a volume that passes the check of \<^verbatim>\<open>main\<close> and a gravity above 1, they report
  NaN exactly when the volume is positive infinity or NaN.
\<close>

lemma cli_water_nan_iff:
  assumes "\<not> d_le volume (Fin 0.0)" "1 < og"
  shows "rep_water (calculate_us_imperial_dbl volume (Fin og)) = NaN \<longleftrightarrow>
           volume = PInf \<or> volume = NaN"
    and "rep_water (calculate_metric_dbl volume (Fin og)) = NaN \<longleftrightarrow>
           volume = PInf \<or> volume = NaN"
  using assms
  by (cases volume;
      simp add: calculate_us_imperial_dbl_def calculate_metric_dbl_def Let_def
        GRAVITY_POINTS_PER_UNIT_def KG_TO_LBS_def L_TO_GAL_def)+

text \<open>
  \<^verbatim>\<open>calculate_ingredients\<close> reports a water that is at least zero on every double:
  \<^verbatim>\<open>fmax(0.0, water)\<close> is zero when the water is NaN.
\<close>

lemma fmax_nonneg: "d_le (Fin 0) (fmax (Fin 0) w)"
  by (cases w) simp_all

lemma gtk_water_nonnegative:
  assumes "calculate_ingredients volume abv unit_str s t = (msg, Some r)"
  shows "d_le (Fin 0) (waterAmount r)"
proof -
  have "\<exists>w. waterAmount r = fmax (Fin 0) w"
    using assms by (auto simp: calculate_ingredients_def Let_def split: if_splits)
  then show ?thesis using fmax_nonneg by auto
qed

section \<open>The claims\<close>

subsection \<open>C1: the original gravity in standard mode\<close>

text \<open>
  Claim C1. In standard mode (\<^verbatim>\<open>is_turbo = 1\<close>), for a sweetness string that matches one
  of the four labels without regard to case, \<^verbatim>\<open>get_target_og\<close> prints nothing and
  returns the final gravity of the table (Dry 1.000, Semi-Sweet 1.010, Sweet 1.020,
  Dessert 1.030) plus \<open>abv / 131.25\<close>, rounded to three decimals half away from zero.
  This holds for every \<open>abv\<close>, so for those from 5 to 25; with \<open>abv = 14\<close> and
  \<^verbatim>\<open>Semi-Sweet\<close> the value is 1.117.
\<close>

theorem standard_og:
  assumes "spec_sweetness s = Some sw"
  shows "get_target_og abv s 1 = ([], spec_og (spec_fg sw) abv) \<and>
         get_target_og 14 ''Semi-Sweet'' 1 = ([], 1.117)"
proof -
  have "get_target_og abv s 1 = ([], spec_og (spec_fg sw) abv)"
    using assms by (simp add: get_target_og_standard)
  moreover have "get_target_og 14 ''Semi-Sweet'' 1 = ([], 1.117)"
    by (simp add: get_target_og_def tolower_def byte_def char_of_def c_round_def)
  ultimately show ?thesis by simp
qed

theorem standard_og_witness:
  "spec_sweetness ''sEMI-sweet'' = Some SemiSweet \<and>
   get_target_og 14 ''sEMI-sweet'' 1 = ([], 1.117) \<and>
   spec_og (spec_fg SemiSweet) 14 = 1.117"
proof -
  have h: "spec_sweetness ''sEMI-sweet'' = Some SemiSweet"
    by (simp add: spec_sweetness_def c_str_def tolower_def byte_def char_of_def)
  have v: "spec_og (spec_fg SemiSweet) 14 = 1.117"
    by (simp add: spec_og_def spec_round3_def)
  show ?thesis
    using h v standard_og [OF h, of 14] by simp
qed

subsection \<open>C2: the metric top-off water\<close>

text \<open>
  The claim C2 equates the metric water with the imperial water converted to litres.
  For 20 litres at a gravity of 1.117 the metric path reports about 14.07 litres, the
  converted imperial water is about 15.65 litres: the two differ by a tenth, far more
  than a relative 0.000001.
\<close>

theorem metric_water_counterexample:
  "\<not> \<bar>rep_water (calculate_metric 20 1.117) -
        rep_water (calculate_us_imperial (20 * L_TO_GAL) 1.117) / L_TO_GAL\<bar>
      \<le> 0.000001 * \<bar>rep_water (calculate_us_imperial (20 * L_TO_GAL) 1.117) / L_TO_GAL\<bar>"
proof -
  have m: "rep_water (calculate_metric 20 1.117) = 20 - 117 / 1000 * 20 * (195487280 / 77161700)"
    unfolding metric_water metric_displacement by simp
  have u: "rep_water (calculate_us_imperial (20 * L_TO_GAL) 1.117) / L_TO_GAL =
      20 - 117 / 1000 * 20 * (65 / 35)"
    unfolding us_water us_displacement by (simp add: L_TO_GAL_def)
  show ?thesis unfolding m u by simp
qed

text \<open>
  Claim C2, as amended. For every target gravity and every positive volume in litres,
  \<^verbatim>\<open>calculate_metric\<close> reports the water \<open>volume_L - honey_kg * 0.74\<close>, or zero when
  that is not positive, from its own displacement constant of 0.74 litres per kilogram.
  This is not the water of \<^verbatim>\<open>calculate_us_imperial\<close> (0.65 gallons per 10 pounds)
  divided by 0.264172: the two coincide when the gravity is 1.000 (no honey), and for a
  gravity above 1.000 and at most 1.225 the metric water is strictly smaller.
\<close>

theorem metric_water_independent:
  assumes "0 < volume_L"
  shows "rep_water (calculate_metric volume_L og) =
           max 0 (volume_L - rep_honey (calculate_metric volume_L og) * 0.74) \<and>
         (og = 1 \<longrightarrow>
            rep_water (calculate_metric volume_L og) =
              rep_water (calculate_us_imperial (volume_L * L_TO_GAL) og) / L_TO_GAL) \<and>
         (1 < og \<and> og \<le> 1.225 \<longrightarrow>
            rep_water (calculate_metric volume_L og) <
              rep_water (calculate_us_imperial (volume_L * L_TO_GAL) og) / L_TO_GAL)"
proof -
  define p where "p = (og - 1) * volume_L"
  have L: "0 < L_TO_GAL" by (simp add: L_TO_GAL_def)
  have m: "rep_water (calculate_metric volume_L og) = max 0 (volume_L - p * (195487280 / 77161700))"
    unfolding metric_water metric_displacement p_def ..
  have "rep_water (calculate_us_imperial (volume_L * L_TO_GAL) og) =
      max 0 ((volume_L - p * (65 / 35)) * L_TO_GAL)"
    unfolding us_water us_displacement p_def by (simp add: algebra_simps)
  also have "\<dots> = max 0 (volume_L - p * (65 / 35)) * L_TO_GAL"
    using L by (simp add: max_def zero_le_mult_iff mult_le_0_iff)
  finally have u: "rep_water (calculate_us_imperial (volume_L * L_TO_GAL) og) / L_TO_GAL =
      max 0 (volume_L - p * (65 / 35))"
    using L by simp
  have eq: "rep_water (calculate_metric volume_L og) =
      rep_water (calculate_us_imperial (volume_L * L_TO_GAL) og) / L_TO_GAL" if "og = 1"
    unfolding m u using that by (simp add: p_def)
  have less: "rep_water (calculate_metric volume_L og) <
      rep_water (calculate_us_imperial (volume_L * L_TO_GAL) og) / L_TO_GAL"
    if "1 < og" "og \<le> 1.225"
  proof -
    have "0 < p" unfolding p_def using that assms by simp
    moreover have "p \<le> 0.225 * volume_L"
      unfolding p_def using that assms by simp
    ultimately show ?thesis unfolding m u using assms by (simp add: max_def)
  qed
  show ?thesis using metric_water[of volume_L og] eq less by blast
qed

theorem metric_water_independent_witness:
  "(0::real) < 20 \<and> (1::real) < 1.117 \<and> (1.117::real) \<le> 1.225 \<and>
   rep_water (calculate_metric 20 1.117) =
     max 0 (20 - rep_honey (calculate_metric 20 1.117) * 0.74) \<and>
   rep_water (calculate_metric 20 1.117) <
     rep_water (calculate_us_imperial (20 * L_TO_GAL) 1.117) / L_TO_GAL"
proof -
  have h: "(0::real) < 20" by simp
  have a: "(1::real) < 1.117" by simp
  have b: "(1.117::real) \<le> 1.225" by simp
  show ?thesis using metric_water_independent [OF h, of "1.117"] h a b by blast
qed

subsection \<open>C3: an unrecognised sweetness\<close>

text \<open>
  The claim C3 covers both modes. In turbo mode the function never looks at the
  sweetness: the unrecognised \<^verbatim>\<open>invalid_token\<close> with \<open>abv = 14\<close> gives the note and
  1.107, not the error value.
\<close>

theorem invalid_sweetness_turbo_counterexample:
  "spec_sweetness ''invalid_token'' = None \<and>
   get_target_og 14 ''invalid_token'' 2 = ([TurboNote], 1.107) \<and>
   snd (get_target_og 14 ''invalid_token'' 2) \<noteq> 0.0"
  by (simp add: spec_sweetness_def get_target_og_def c_str_def tolower_def byte_def
      char_of_def c_round_def)

text \<open>
  Claim C3, as amended. In standard mode (\<^verbatim>\<open>is_turbo = 1\<close>), for every \<open>abv\<close> (so for
  those from 5 to 25) and a sweetness string that matches none of the four labels,
  \<^verbatim>\<open>get_target_og\<close> prints nothing and returns the error value \<^verbatim>\<open>0.0\<close>; \<^verbatim>\<open>main\<close>, on
  otherwise valid input, then prints the invalid-sweetness error only and exits with
  status 1: no gravity and no ingredient report is produced.
\<close>

theorem invalid_sweetness_standard:
  assumes "spec_sweetness s = None"
  shows "get_target_og abv s 1 = ([], 0.0) \<and>
         ((choice = 1 \<or> choice = 2) \<and> 0 < volume \<and> 5 \<le> abv \<and> abv \<le> 25 \<and> length s < 20 \<longrightarrow>
           main \<lparr>tok_choice = Some choice, tok_volume = Some volume, tok_abv = Some abv,
                 tok_sweetness = Some s, tok_yeast = Some 1\<rparr> =
             Some ([ErrorInvalidSweetness], 1))"
proof -
  have og: "get_target_og abv s 1 = ([], 0)"
    using assms by (simp add: get_target_og_standard)
  moreover have "main \<lparr>tok_choice = Some choice, tok_volume = Some volume, tok_abv = Some abv,
                 tok_sweetness = Some s, tok_yeast = Some 1\<rparr> =
             Some ([ErrorInvalidSweetness], 1)"
    if "choice = 1 \<or> choice = 2" "0 < volume" "5 \<le> abv" "abv \<le> 25" "length s < 20"
    using main_validated[OF that, of 1] og by simp
  ultimately show ?thesis by simp
qed

theorem invalid_sweetness_standard_witness:
  "spec_sweetness ''invalid_token'' = None \<and>
   get_target_og 14 ''invalid_token'' 1 = ([], 0.0) \<and>
   main \<lparr>tok_choice = Some 1, tok_volume = Some 5, tok_abv = Some 14,
         tok_sweetness = Some ''invalid_token'', tok_yeast = Some 1\<rparr> =
     Some ([ErrorInvalidSweetness], 1)"
proof -
  have h: "spec_sweetness ''invalid_token'' = None"
    by (simp add: spec_sweetness_def c_str_def tolower_def byte_def char_of_def)
  show ?thesis
    using h invalid_sweetness_standard [OF h, of 14 1 5] by simp
qed

subsection \<open>C4: turbo mode ignores the sweetness\<close>

text \<open>
  Claim C4. In turbo mode (\<^verbatim>\<open>is_turbo = 2\<close>), for every \<open>abv\<close> (so for those from 5 to
  25) and every sweetness string, recognised or not, \<^verbatim>\<open>get_target_og\<close> prints the
  turbo note and returns \<open>1.000 + abv / 131.25\<close> rounded to three decimals: the result
  does not depend on the sweetness. For \<^verbatim>\<open>invalid_token\<close> and \<open>abv = 14\<close> it is 1.107.
\<close>

theorem turbo_og:
  "get_target_og abv s 2 = ([TurboNote], spec_og 1.000 abv) \<and>
   get_target_og abv s 2 = get_target_og abv s' 2 \<and>
   get_target_og 14 ''invalid_token'' 2 = ([TurboNote], 1.107)"
proof -
  have "get_target_og 14 ''invalid_token'' 2 = ([TurboNote], 1.107)"
    by (simp add: get_target_og_def c_round_def)
  then show ?thesis
    by (simp add: get_target_og_turbo)
qed

subsection \<open>C5: the imperial calculation\<close>

text \<open>
  Claim C5. For every target gravity and every volume in gallons (so for the positive
  ones), \<^verbatim>\<open>calculate_us_imperial\<close> reports the gravity points
  \<open>(og - 1.000) * 1000 * volume_gal\<close>, the honey in pounds as the points divided by
  35.0, and the water as the volume minus \<open>honey / 10.0 * 0.65\<close>, clamped at zero.
  For a gravity of 1.117 and 5 gallons the points are 585, the honey is 585 / 35
  pounds and the water is 3.914 gallons to three decimals.
\<close>

theorem us_formulas:
  "rep_points (calculate_us_imperial volume_gal og) = (og - 1.000) * 1000 * volume_gal \<and>
   rep_honey (calculate_us_imperial volume_gal og) =
     rep_points (calculate_us_imperial volume_gal og) / 35.0 \<and>
   rep_water (calculate_us_imperial volume_gal og) =
     max 0 (volume_gal - (rep_honey (calculate_us_imperial volume_gal og) / 10.0) * 0.65) \<and>
   rep_honey_unit (calculate_us_imperial volume_gal og) = ''lbs (pounds)'' \<and>
   rep_water_unit (calculate_us_imperial volume_gal og) = ''gallons'' \<and>
   rep_points (calculate_us_imperial 5 1.117) = 585 \<and>
   rep_honey (calculate_us_imperial 5 1.117) = 585 / 35 \<and>
   \<bar>rep_water (calculate_us_imperial 5 1.117) - 3.914\<bar> < 0.0005"
proof -
  have "rep_points (calculate_us_imperial volume_gal og) = (og - 1.000) * 1000 * volume_gal"
    by (simp add: us_points)
  moreover have "rep_honey (calculate_us_imperial volume_gal og) =
     rep_points (calculate_us_imperial volume_gal og) / 35.0"
    by (simp only: us_honey GRAVITY_POINTS_PER_UNIT_def)
  moreover note us_water[of volume_gal og]
  moreover have "rep_honey_unit (calculate_us_imperial volume_gal og) = ''lbs (pounds)''"
    "rep_water_unit (calculate_us_imperial volume_gal og) = ''gallons''"
    by (simp_all add: calculate_us_imperial_def Let_def)
  moreover have p: "rep_points (calculate_us_imperial 5 1.117) = 585"
    by (simp add: us_points)
  moreover have h: "rep_honey (calculate_us_imperial 5 1.117) = 585 / 35"
    unfolding us_honey p GRAVITY_POINTS_PER_UNIT_def by simp
  moreover have "\<bar>rep_water (calculate_us_imperial 5 1.117) - 3.914\<bar> < 0.0005"
    unfolding us_water h by simp
  ultimately show ?thesis by (simp only: simp_thms)
qed

subsection \<open>C6: the metric calculation\<close>

text \<open>
  Claim C6. For every target gravity and every volume in litres (so for the positive
  ones), \<^verbatim>\<open>calculate_metric\<close> converts the volume to gallons with the factor
  0.264172, has the gravity points and the pounds of honey of the imperial calculation
  on that converted volume, and reports the honey in kilograms as those pounds divided
  by 2.20462. For a gravity of 1.117 and 20 litres that is 8.011 kilograms to three
  decimals.
\<close>

theorem metric_formulas:
  "rep_points (calculate_metric volume_L og) =
     rep_points (calculate_us_imperial (volume_L * 0.264172) og) \<and>
   rep_points (calculate_metric volume_L og) = (og - 1.000) * 1000 * (volume_L * 0.264172) \<and>
   rep_honey (calculate_metric volume_L og) =
     rep_honey (calculate_us_imperial (volume_L * 0.264172) og) / 2.20462 \<and>
   rep_honey_unit (calculate_metric volume_L og) = ''kg (kilograms)'' \<and>
   \<bar>rep_honey (calculate_metric 20 1.117) - 8.011\<bar> < 0.0005"
proof -
  have a: "rep_points (calculate_metric volume_L og) =
     rep_points (calculate_us_imperial (volume_L * 0.264172) og)"
    by (simp only: metric_points us_points L_TO_GAL_def)
  moreover have "rep_points (calculate_metric volume_L og) = (og - 1.000) * 1000 * (volume_L * 0.264172)"
    by (simp add: metric_points L_TO_GAL_def)
  moreover have "rep_honey (calculate_metric volume_L og) =
     rep_honey (calculate_us_imperial (volume_L * 0.264172) og) / 2.20462"
    by (simp only: metric_honey us_honey a KG_TO_LBS_def)
  moreover have "rep_honey_unit (calculate_metric volume_L og) = ''kg (kilograms)''"
    by (simp add: calculate_metric_def Let_def)
  moreover have "\<bar>rep_honey (calculate_metric 20 1.117) - 8.011\<bar> < 0.0005"
    unfolding metric_honey metric_points L_TO_GAL_def KG_TO_LBS_def GRAVITY_POINTS_PER_UNIT_def
    by simp
  ultimately show ?thesis by (simp only: simp_thms)
qed

subsection \<open>C7: the reported water at an infinite volume\<close>

text \<open>
  Claim C7 says that the reported top-off water is never negative, for every positive
  volume in either unit system. That holds on every finite volume (see
  \<open>finite_water_nonnegative\<close> above), but not on the volume \<^verbatim>\<open>inf\<close>, which is
  positive and passes the check \<^verbatim>\<open>volume <= 0.0\<close> of \<^verbatim>\<open>main\<close>. With 14 percent,
  \<^verbatim>\<open>Semi-Sweet\<close> and standard yeast, \<^verbatim>\<open>main\<close> runs to the end with status 0 in both
  unit systems, and the water that \<^verbatim>\<open>calculate_us_imperial\<close> and
  \<^verbatim>\<open>calculate_metric\<close> report is infinity minus infinity, NaN: the test
  \<^verbatim>\<open>water <= 0.0\<close> is false for it, so it is not replaced by zero, and it is not at
  least zero. On the same input \<^verbatim>\<open>calculate_ingredients\<close> of the graphical variant
  reports the water zero.
\<close>

theorem infinite_volume_water_nan:
  "main_dbl \<lparr>tok_choice = Some 1, tok_volume = Some PInf, tok_abv = Some 14,
             tok_sweetness = Some ''Semi-Sweet'', tok_yeast = Some 1\<rparr> =
     Some ([Results (calculate_us_imperial_dbl PInf (Fin 1.117)), Complete], 0) \<and>
   rep_water (calculate_us_imperial_dbl PInf (Fin 1.117)) = NaN \<and>
   main_dbl \<lparr>tok_choice = Some 2, tok_volume = Some PInf, tok_abv = Some 14,
             tok_sweetness = Some ''Semi-Sweet'', tok_yeast = Some 1\<rparr> =
     Some ([Results (calculate_metric_dbl PInf (Fin 1.117)), Complete], 0) \<and>
   rep_water (calculate_metric_dbl PInf (Fin 1.117)) = NaN \<and>
   \<not> d_le (Fin 0) NaN \<and>
   map_option waterAmount (snd (calculate_ingredients PInf 14 ''Gallons'' ''Semi-Sweet'' 1)) =
     Some (Fin 0)"
proof -
  have og: "get_target_og 14 ''Semi-Sweet'' 1 = ([], 1.117)"
    by (simp add: get_target_og_def tolower_def byte_def char_of_def c_round_def)
  have gog: "gtk_get_target_og 14 ''Semi-Sweet'' 1 = 1.117"
    by (simp add: gtk_get_target_og_eq og)
  have m1: "main_dbl \<lparr>tok_choice = Some 1, tok_volume = Some PInf, tok_abv = Some 14,
             tok_sweetness = Some ''Semi-Sweet'', tok_yeast = Some 1\<rparr> =
     Some ([Results (calculate_us_imperial_dbl PInf (Fin 1.117)), Complete], 0)"
    by (simp add: main_dbl_def og)
  have m2: "main_dbl \<lparr>tok_choice = Some 2, tok_volume = Some PInf, tok_abv = Some 14,
             tok_sweetness = Some ''Semi-Sweet'', tok_yeast = Some 1\<rparr> =
     Some ([Results (calculate_metric_dbl PInf (Fin 1.117)), Complete], 0)"
    by (simp add: main_dbl_def og)
  have w1: "rep_water (calculate_us_imperial_dbl PInf (Fin 1.117)) = NaN"
    by (simp add: calculate_us_imperial_dbl_def Let_def GRAVITY_POINTS_PER_UNIT_def)
  have w2: "rep_water (calculate_metric_dbl PInf (Fin 1.117)) = NaN"
    by (simp add: calculate_metric_dbl_def Let_def GRAVITY_POINTS_PER_UNIT_def
        KG_TO_LBS_def L_TO_GAL_def)
  have g: "map_option waterAmount
      (snd (calculate_ingredients PInf 14 ''Gallons'' ''Semi-Sweet'' 1)) = Some (Fin 0)"
    unfolding calculate_ingredients_def gog
    by (simp add: Let_def GRAVITY_POINTS_PER_UNIT_def tolower_def byte_def char_of_def)
  show ?thesis using m1 m2 w1 w2 g by simp
qed

subsection \<open>C8: the resolved gravity stays below the threshold\<close>

text \<open>
  Claim C8. For every \<open>abv\<close> from 5 to 25, every recognised sweetness and both modes,
  the value \<^verbatim>\<open>get_target_og\<close> returns is at most 1.220, hence not above 1.225; and
  on no input does \<^verbatim>\<open>main\<close> print the high-gravity warning. The bound is reached at
  \<open>abv = 25\<close> with \<^verbatim>\<open>Dessert\<close> in standard mode.
\<close>

theorem og_never_impractical:
  "((5 \<le> abv \<and> abv \<le> 25 \<and> spec_sweetness s = Some sw \<and> (mode = 1 \<or> mode = 2) \<longrightarrow>
      snd (get_target_og abv s mode) \<le> 1.220 \<and> \<not> snd (get_target_og abv s mode) > 1.225)) \<and>
   (main inp = Some (out, code) \<longrightarrow> WarningHighOG og \<notin> set out) \<and>
   get_target_og 25 ''Dessert'' 1 = ([], 1.220)"
proof -
  have "snd (get_target_og abv s mode) \<le> 1.220 \<and> \<not> snd (get_target_og abv s mode) > 1.225"
    if "5 \<le> abv" "abv \<le> 25"
    using og_value_cases[OF that, of s mode] by auto
  moreover have "get_target_og 25 ''Dessert'' 1 = ([], 1.220)"
    by (simp add: get_target_og_def tolower_def byte_def char_of_def c_round_def)
  ultimately show ?thesis
    using main_no_warning[of inp out code og] by blast
qed

theorem og_never_impractical_witness:
  "(5::int) \<le> 25 \<and> spec_sweetness ''Dessert'' = Some Dessert \<and>
   snd (get_target_og 25 ''Dessert'' 1) \<le> 1.220 \<and>
   main \<lparr>tok_choice = Some 1, tok_volume = Some 5, tok_abv = Some 25,
         tok_sweetness = Some ''Dessert'', tok_yeast = Some 1\<rparr> =
     Some ([Results (calculate_us_imperial 5 1.220), Complete], 0) \<and>
   WarningHighOG 1.220 \<notin> set [Results (calculate_us_imperial 5 1.220), Complete]"
proof -
  have sw: "spec_sweetness ''Dessert'' = Some Dessert"
    by (simp add: spec_sweetness_def c_str_def tolower_def byte_def char_of_def)
  have og: "get_target_og 25 ''Dessert'' 1 = ([], 1.220)"
    by (simp add: get_target_og_def tolower_def byte_def char_of_def c_round_def)
  have m: "main \<lparr>tok_choice = Some 1, tok_volume = Some 5, tok_abv = Some 25,
         tok_sweetness = Some ''Dessert'', tok_yeast = Some 1\<rparr> =
     Some ([Results (calculate_us_imperial 5 1.220), Complete], 0)"
    by (simp add: main_def og)
  show ?thesis
    using sw m
      og_never_impractical [of 25 "''Dessert''" Dessert 1
        "\<lparr>tok_choice = Some 1, tok_volume = Some 5, tok_abv = Some 25,
          tok_sweetness = Some ''Dessert'', tok_yeast = Some 1\<rparr>"
        "[Results (calculate_us_imperial 5 1.220), Complete]" 0 "1.220"]
    by simp
qed

subsection \<open>C9: the error value identifies the invalid sweetness\<close>

text \<open>
  Claim C9. For every \<open>abv\<close> from 5 to 25, every sweetness string and every mode,
  \<^verbatim>\<open>get_target_og\<close> returns \<^verbatim>\<open>0.0\<close> exactly when the mode is standard and the
  sweetness is unrecognised; every other result is at least 1.038, which is
  \<open>1.000 + 5 / 131.25\<close> rounded to three decimals. Hence \<^verbatim>\<open>main\<close>, on otherwise
  valid input, prints the invalid-sweetness error exactly in that case.
\<close>

theorem sentinel_exact:
  assumes "5 \<le> abv" "abv \<le> 25"
  shows "(snd (get_target_og abv s t) = 0.0 \<longleftrightarrow> t = 1 \<and> spec_sweetness s = None) \<and>
         (snd (get_target_og abv s t) \<noteq> 0.0 \<longrightarrow> 1.038 \<le> snd (get_target_og abv s t)) \<and>
         spec_og 1.000 5 = 1.038 \<and>
         ((choice = 1 \<or> choice = 2) \<and> 0 < volume \<and> length s < 20 \<and> (t = 1 \<or> t = 2) \<and>
          main \<lparr>tok_choice = Some choice, tok_volume = Some volume, tok_abv = Some abv,
                tok_sweetness = Some s, tok_yeast = Some t\<rparr> = Some (out, code) \<longrightarrow>
            (ErrorInvalidSweetness \<in> set out \<longleftrightarrow> t = 1 \<and> spec_sweetness s = None))"
proof -
  have iff: "snd (get_target_og abv s t) = 0 \<longleftrightarrow> t = 1 \<and> spec_sweetness s = None"
    using og_value_cases[OF assms, of s t] by auto
  have lo: "1.038 \<le> snd (get_target_og abv s t)" if "snd (get_target_og abv s t) \<noteq> 0"
    using og_value_cases[OF assms, of s t] that by auto
  have v: "spec_og 1.000 5 = 1.038"
    by (simp add: spec_og_def spec_round3_def)
  have m: "ErrorInvalidSweetness \<in> set out \<longleftrightarrow> t = 1 \<and> spec_sweetness s = None"
    if "choice = 1 \<or> choice = 2" "0 < volume" "length s < 20" "t = 1 \<or> t = 2"
      and run: "main \<lparr>tok_choice = Some choice, tok_volume = Some volume, tok_abv = Some abv,
                tok_sweetness = Some s, tok_yeast = Some t\<rparr> = Some (out, code)"
  proof -
    obtain x v where g: "get_target_og abv s t = (x, v)"
      by (cases "get_target_og abv s t")
    have x: "ErrorInvalidSweetness \<notin> set x"
      using get_target_og_events[of abv s t] g by auto
    have "v = 0 \<longleftrightarrow> t = 1 \<and> spec_sweetness s = None"
      using iff g by simp
    moreover have "ErrorInvalidSweetness \<in> set out \<longleftrightarrow> v = 0"
      using run main_validated[OF that(1,2) assms that(3,4)] g x
      by (auto split: if_splits)
    ultimately show ?thesis by simp
  qed
  have z: "(0.0::real) = 0" by simp
  show ?thesis unfolding z using iff lo v m by blast
qed

theorem sentinel_exact_witness:
  "(5::int) \<le> 14 \<and> (14::int) \<le> 25 \<and>
   snd (get_target_og 14 ''Semi-Swee'' 1) = 0.0 \<and> spec_sweetness ''Semi-Swee'' = None \<and>
   main \<lparr>tok_choice = Some 2, tok_volume = Some 20, tok_abv = Some 14,
         tok_sweetness = Some ''Semi-Swee'', tok_yeast = Some 1\<rparr> =
     Some ([ErrorInvalidSweetness], 1) \<and>
   ErrorInvalidSweetness \<in> set [ErrorInvalidSweetness]"
proof -
  have sw: "spec_sweetness ''Semi-Swee'' = None"
    by (simp add: spec_sweetness_def c_str_def tolower_def byte_def char_of_def)
  have og: "get_target_og 14 ''Semi-Swee'' 1 = ([], 0.0)"
    by (simp add: get_target_og_def tolower_def byte_def char_of_def)
  have m: "main \<lparr>tok_choice = Some 2, tok_volume = Some 20, tok_abv = Some 14,
         tok_sweetness = Some ''Semi-Swee'', tok_yeast = Some 1\<rparr> =
     Some ([ErrorInvalidSweetness], 1)"
    by (simp add: main_def og)
  have a: "(5::int) \<le> 14" and b: "(14::int) \<le> 25" by simp_all
  show ?thesis
    using sw og m sentinel_exact [OF a b, of "''Semi-Swee''" 1 2 20 "[ErrorInvalidSweetness]" 1]
    by simp
qed

subsection \<open>C10: every mode value other than 1 is turbo\<close>

text \<open>
  Claim C10. For every \<^verbatim>\<open>is_turbo\<close> other than 1 (0, 2, 3, negative values), every
  \<open>abv\<close> and every sweetness string, \<^verbatim>\<open>get_target_og\<close> takes the turbo branch: it
  prints the turbo note, does not validate the sweetness and returns
  \<open>1.000 + abv / 131.25\<close> rounded to three decimals. Only \<^verbatim>\<open>is_turbo = 1\<close> selects
  the sweetness table, where an unrecognised sweetness gives the error value.
\<close>

theorem mode_not_one_is_turbo:
  "(is_turbo \<noteq> 1 \<longrightarrow>
      get_target_og abv s is_turbo = ([TurboNote], spec_og 1.000 abv)) \<and>
   get_target_og abv s 1 =
     (case spec_sweetness s of
        None \<Rightarrow> ([], 0.0)
      | Some sw \<Rightarrow> ([], spec_og (spec_fg sw) abv))"
  by (simp add: get_target_og_cases split: option.split)

theorem mode_not_one_is_turbo_witness:
  "(- 3 :: int) \<noteq> 1 \<and>
   get_target_og 14 ''Sweet'' (- 3) = ([TurboNote], 1.107) \<and>
   get_target_og 14 ''Sweet'' 0 = ([TurboNote], 1.107) \<and>
   get_target_og 14 ''Sweet'' 1 = ([], 1.127) \<and>
   spec_og 1.000 14 = 1.107"
proof -
  have v: "spec_og 1.000 14 = 1.107"
    by (simp add: spec_og_def spec_round3_def)
  have w: "spec_og 1.020 14 = 1.127"
    by (simp add: spec_og_def spec_round3_def)
  have sw: "spec_sweetness ''Sweet'' = Some Sweet"
    by (simp add: spec_sweetness_def c_str_def tolower_def byte_def char_of_def)
  show ?thesis
    using v w sw mode_not_one_is_turbo [of "- 3" 14 "''Sweet''"]
      mode_not_one_is_turbo [of 0 14 "''Sweet''"]
    by simp
qed

end
